theory Spec2Isabelle
  imports Main "HOL-Library.Word"
begin

unbundle bit_operations_syntax

section \<open>Data model of capn.h\<close>

text \<open>
  The C types of the header. \<open>int\<close> is a 32-bit two's complement integer; \<open>+\<close> on it is
  the machine addition (it wraps where C leaves the overflow undefined) and \<open>sint\<close> reads
  its value. Addresses are the locations of a flat byte-addressed store, so that
  \<open>p.data + off\<close> is the address \<open>data p + sint off\<close>.
\<close>

type_synonym u8 = "8 word"
type_synonym u16 = "16 word"
type_synonym u32 = "32 word"
type_synonym u64 = "64 word"
type_synonym c_int = "32 word"
type_synonym addr = int

text \<open>\<open>struct capn_tree\<close>: \<open>parent\<close>, \<open>link[2]\<close> and the one-bit field \<open>red\<close>.\<close>

record capn_tree =
  parent :: addr
  link :: "addr list"
  red :: "1 word"

text \<open>
  \<open>struct capn_segment\<close>. The fields \<open>next\<close> and \<open>id\<close> are named \<open>next_seg\<close> and
  \<open>id_seg\<close> here.
\<close>

record capn_segment =
  hdr :: capn_tree
  next_seg :: addr
  capn :: addr
  id_seg :: u32
  data :: addr
  len :: c_int
  cap :: c_int

datatype CAPN_TYPE = CAPN_NULL | CAPN_STRUCT | CAPN_LIST | CAPN_PTR_LIST | CAPN_BIT_LIST

text \<open>
  \<open>struct capn_ptr\<close>. \<open>datasz\<close> and \<open>ptrsz\<close> are 19-bit unsigned bit-fields; the fields
  \<open>type\<close> and \<open>size\<close> are named \<open>type_ptr\<close> and \<open>size_ptr\<close> here.
\<close>

record capn_ptr =
  type_ptr :: CAPN_TYPE
  is_list_member :: "1 word"
  has_ptr_tag :: "1 word"
  has_composite_tag :: "1 word"
  datasz :: "19 word"
  ptrsz :: "19 word"
  size_ptr :: c_int
  data :: addr
  seg :: addr

text \<open>
  \<open>float\<close> and \<open>double\<close> values are carried by their 32-bit and 64-bit patterns: the
  unions of \<open>capn_read_float\<close> and of its siblings only ever reinterpret the pattern, and
  two values are bit-identical exactly when they are equal here.
\<close>

datatype c_float = Float (float_bits: u32)
datatype c_double = Double (double_bits: u64)

section \<open>The machine: a byte store and the segment headers\<close>

datatype endian = LittleEndian | BigEndian

text \<open>
  The state the primitives run in: the byte order of the host, the bytes of memory, and
  the segment headers by address (typed objects, apart from the byte store).
\<close>

record machine =
  host :: endian
  mem :: "addr \<Rightarrow> u8"
  segs :: "addr \<rightharpoonup> capn_segment"

fun store_bytes :: "addr \<Rightarrow> u8 list \<Rightarrow> (addr \<Rightarrow> u8) \<Rightarrow> (addr \<Rightarrow> u8)" where
  "store_bytes a [] m = m"
| "store_bytes a (b # bs) m = store_bytes (a + 1) bs (m(a := b))"

fun load_bytes :: "addr \<Rightarrow> nat \<Rightarrow> (addr \<Rightarrow> u8) \<Rightarrow> u8 list" where
  "load_bytes a 0 m = []"
| "load_bytes a (Suc n) m = m a # load_bytes (a + 1) n m"

text \<open>
  The object representation of an unsigned integer on the host: its bytes from the least
  significant one on a little-endian host, in the opposite order on a big-endian one.
\<close>

fun le_encode :: "nat \<Rightarrow> 'a::len word \<Rightarrow> u8 list" where
  "le_encode 0 v = []"
| "le_encode (Suc n) v = ucast v # le_encode n (drop_bit 8 v)"

fun le_decode :: "u8 list \<Rightarrow> 'a::len word" where
  "le_decode [] = 0"
| "le_decode (b # bs) = ucast b OR push_bit 8 (le_decode bs)"

definition host_encode :: "endian \<Rightarrow> nat \<Rightarrow> 'a::len word \<Rightarrow> u8 list" where
  "host_encode e n v = (case e of LittleEndian \<Rightarrow> le_encode n v | BigEndian \<Rightarrow> rev (le_encode n v))"

definition host_decode :: "endian \<Rightarrow> u8 list \<Rightarrow> 'a::len word" where
  "host_decode e bs = (case e of LittleEndian \<Rightarrow> le_decode bs | BigEndian \<Rightarrow> le_decode (rev bs))"

text \<open>
  The accesses \<open>*(uintN_t*) a\<close>, at any alignment: a load reads the N/8 bytes at \<open>a\<close> as a
  host integer and leaves the state as it is; a store writes the N/8 bytes of the host
  representation.
\<close>

definition load :: "nat \<Rightarrow> addr \<Rightarrow> machine \<Rightarrow> 'a::len word \<times> machine" where
  "load n a s = (host_decode (host s) (load_bytes a n (mem s)), s)"

definition store :: "nat \<Rightarrow> addr \<Rightarrow> 'a::len word \<Rightarrow> machine \<Rightarrow> machine" where
  "store n a x s = s\<lparr>mem := store_bytes a (host_encode (host s) n x) (mem s)\<rparr>"

section \<open>The inline functions\<close>

text \<open>The macro \<open>T(IDX)\<close>: the byte \<open>(uint8_t) (v >> (8*IDX))\<close> assigned to \<open>s.v[IDX]\<close>.\<close>

definition T :: "nat \<Rightarrow> 'a::len word \<Rightarrow> u8" where
  "T IDX v = ucast (drop_bit (8 * IDX) v)"

text \<open>
  \<open>capn_flipN\<close> fills the bytes \<open>s.v\<close> of the union and returns its member \<open>s.u\<close>, the
  host integer with those bytes.
\<close>

definition capn_flip8 :: "u8 \<Rightarrow> u8" where
  "capn_flip8 v = v"

definition capn_flip16 :: "endian \<Rightarrow> u16 \<Rightarrow> u16" where
  "capn_flip16 e v = host_decode e [T 0 v, T 1 v]"

definition capn_flip32 :: "endian \<Rightarrow> u32 \<Rightarrow> u32" where
  "capn_flip32 e v = host_decode e [T 0 v, T 1 v, T 2 v, T 3 v]"

definition capn_flip64 :: "endian \<Rightarrow> u64 \<Rightarrow> u64" where
  "capn_flip64 e v = host_decode e [T 0 v, T 1 v, T 2 v, T 3 v, T 4 v, T 5 v, T 6 v, T 7 v]"

text \<open>
  In the guard \<open>off+N/8 <= p.datasz\<close> the sum is an \<open>int\<close>, and the 19-bit bit-field is
  promoted to \<open>int\<close> with its value, so the comparison is the signed one:
  \<open>sint (off + N/8) \<le> uint (datasz p)\<close>.
\<close>

definition capn_read8 :: "capn_ptr \<Rightarrow> c_int \<Rightarrow> machine \<Rightarrow> u8 \<times> machine" where
  "capn_read8 p off s =
     (if sint (off + 1) \<le> uint (datasz p)
      then (let (x, s') = load 1 (data p + sint off) s in (capn_flip8 x, s'))
      else (0, s))"

definition capn_write8 :: "capn_ptr \<Rightarrow> c_int \<Rightarrow> u8 \<Rightarrow> machine \<Rightarrow> c_int \<times> machine" where
  "capn_write8 p off val s =
     (if sint (off + 1) \<le> uint (datasz p)
      then (0, store 1 (data p + sint off) (capn_flip8 val) s)
      else (- 1, s))"

definition capn_read16 :: "capn_ptr \<Rightarrow> c_int \<Rightarrow> machine \<Rightarrow> u16 \<times> machine" where
  "capn_read16 p off s =
     (if sint (off + 2) \<le> uint (datasz p)
      then (let (x, s') = load 2 (data p + sint off) s in (capn_flip16 (host s') x, s'))
      else (0, s))"

definition capn_write16 :: "capn_ptr \<Rightarrow> c_int \<Rightarrow> u16 \<Rightarrow> machine \<Rightarrow> c_int \<times> machine" where
  "capn_write16 p off val s =
     (if sint (off + 2) \<le> uint (datasz p)
      then (0, store 2 (data p + sint off) (capn_flip16 (host s) val) s)
      else (- 1, s))"

definition capn_read32 :: "capn_ptr \<Rightarrow> c_int \<Rightarrow> machine \<Rightarrow> u32 \<times> machine" where
  "capn_read32 p off s =
     (if sint (off + 4) \<le> uint (datasz p)
      then (let (x, s') = load 4 (data p + sint off) s in (capn_flip32 (host s') x, s'))
      else (0, s))"

definition capn_write32 :: "capn_ptr \<Rightarrow> c_int \<Rightarrow> u32 \<Rightarrow> machine \<Rightarrow> c_int \<times> machine" where
  "capn_write32 p off val s =
     (if sint (off + 4) \<le> uint (datasz p)
      then (0, store 4 (data p + sint off) (capn_flip32 (host s) val) s)
      else (- 1, s))"

definition capn_read64 :: "capn_ptr \<Rightarrow> c_int \<Rightarrow> machine \<Rightarrow> u64 \<times> machine" where
  "capn_read64 p off s =
     (if sint (off + 8) \<le> uint (datasz p)
      then (let (x, s') = load 8 (data p + sint off) s in (capn_flip64 (host s') x, s'))
      else (0, s))"

definition capn_write64 :: "capn_ptr \<Rightarrow> c_int \<Rightarrow> u64 \<Rightarrow> machine \<Rightarrow> c_int \<times> machine" where
  "capn_write64 p off val s =
     (if sint (off + 8) \<le> uint (datasz p)
      then (0, store 8 (data p + sint off) (capn_flip64 (host s) val) s)
      else (- 1, s))"

text \<open>
  The float and double variants. Each union has the members \<open>f\<close> and \<open>u\<close> over the same
  bytes: assigning \<open>f\<close> and reading \<open>u\<close> gives the pattern of the value.
\<close>

definition capn_read_float :: "capn_ptr \<Rightarrow> c_int \<Rightarrow> c_float \<Rightarrow> machine \<Rightarrow> c_float \<times> machine" where
  "capn_read_float p off def s =
     (let u = float_bits def;
          (x, s') = capn_read32 p off s;
          u = u XOR x
      in (Float u, s'))"

definition capn_write_float :: "capn_ptr \<Rightarrow> c_int \<Rightarrow> c_float \<Rightarrow> c_float \<Rightarrow> machine \<Rightarrow> c_int \<times> machine" where
  "capn_write_float p off f def s =
     (let u = float_bits f;
          d = float_bits def
      in capn_write32 p off (u XOR d) s)"

definition capn_read_double :: "capn_ptr \<Rightarrow> c_int \<Rightarrow> c_double \<Rightarrow> machine \<Rightarrow> c_double \<times> machine" where
  "capn_read_double p off def s =
     (let u = double_bits def;
          (x, s') = capn_read64 p off s;
          u = u XOR x
      in (Double u, s'))"

text \<open>\<open>capn_write_double\<close> as written: both unions are assigned \<open>f\<close>; \<open>def\<close> is not used.\<close>

definition capn_write_double :: "capn_ptr \<Rightarrow> c_int \<Rightarrow> c_double \<Rightarrow> c_double \<Rightarrow> machine \<Rightarrow> c_int \<times> machine" where
  "capn_write_double p off f def s =
     (let d = double_bits f;
          u = double_bits f
      in capn_write64 p off (u XOR d) s)"

section \<open>A concrete pointer and machine\<close>

text \<open>
  A struct pointer with an 8-byte data section at address 1000, and a little-endian machine
  whose memory holds the byte \<open>0xAA\<close> everywhere and which has no segment header.
\<close>

definition example_ptr :: capn_ptr where
  "example_ptr = \<lparr>type_ptr = CAPN_STRUCT, is_list_member = 0, has_ptr_tag = 0,
     has_composite_tag = 0, datasz = 8, ptrsz = 0, size_ptr = 0, data = 1000, seg = 0\<rparr>"

definition example_machine :: machine where
  "example_machine = \<lparr>host = LittleEndian, mem = (\<lambda>a. 0xAA), segs = Map.empty\<rparr>"

section \<open>The byte store and the host representation\<close>

lemma store_bytes_outside:
  "a' < a \<or> a + int (length bs) \<le> a' \<Longrightarrow> store_bytes a bs m a' = m a'"
  by (induction bs arbitrary: a m) auto

lemma store_bytes_nth:
  "i < length bs \<Longrightarrow> store_bytes a bs m (a + int i) = bs ! i"
proof (induction bs arbitrary: a m i)
  case Nil
  then show ?case by simp
next
  case (Cons b bs)
  show ?case
  proof (cases i)
    case 0
    then show ?thesis by (simp add: store_bytes_outside)
  next
    case (Suc j)
    with Cons.prems have "j < length bs" by simp
    then have "store_bytes (a + 1) bs (m(a := b)) (a + 1 + int j) = bs ! j"
      by (rule Cons.IH)
    moreover have "a + int i = a + 1 + int j" using Suc by simp
    ultimately show ?thesis using Suc by (simp add: add.assoc)
  qed
qed

lemma load_store_bytes:
  "load_bytes a (length bs) (store_bytes a bs m) = bs"
  by (induction bs arbitrary: a m) (simp_all add: store_bytes_outside)

lemma length_le_encode: "length (le_encode n v) = n"
  by (induction n arbitrary: v) auto

lemma length_load_bytes: "length (load_bytes a n m) = n"
  by (induction n arbitrary: a) auto

lemma le_decode_encode:
  "le_decode (le_encode n v) = (take_bit (8 * n) v :: 'a::len word)"
proof (induction n arbitrary: v)
  case 0
  then show ?case by simp
next
  case (Suc n)
  show ?case
    apply (simp add: Suc)
    apply (rule bit_eqI)
    apply (auto simp add: bit_simps)
    done
qed

lemma le_encode_nth: "i < n \<Longrightarrow> le_encode n v ! i = T i v"
proof (induction n arbitrary: v i)
  case 0
  then show ?case by simp
next
  case (Suc n)
  show ?case
  proof (cases i)
    case 0
    then show ?thesis by (simp add: T_def)
  next
    case (Suc j)
    with Suc.prems have "j < n" by simp
    then have "le_encode n (drop_bit 8 v) ! j = T j (drop_bit 8 v)" by (rule Suc.IH)
    then show ?thesis using Suc by (simp add: T_def add.commute)
  qed
qed

lemma bit_le_decode:
  "bit (le_decode bs :: 'a::len word) n \<Longrightarrow> n < 8 * length bs"
proof (induction bs arbitrary: n)
  case Nil
  then show ?case by simp
next
  case (Cons b bs)
  from Cons.prems have "bit (ucast b :: 'a word) n \<or> bit (push_bit 8 (le_decode bs :: 'a word)) n"
    by (simp add: bit_simps)
  then show ?case
  proof
    assume "bit (ucast b :: 'a word) n"
    then have "n < 8" by (auto simp add: bit_simps dest: bit_imp_le_length)
    then show ?thesis by simp
  next
    assume "bit (push_bit 8 (le_decode bs :: 'a word)) n"
    then have "8 \<le> n" and "bit (le_decode bs :: 'a word) (n - 8)"
      by (simp_all add: bit_simps)
    with Cons.IH [of "n - 8"] show ?thesis by simp
  qed
qed

lemma le_encode_decode:
  "8 * length bs \<le> LENGTH('a) \<Longrightarrow> le_encode (length bs) (le_decode bs :: 'a::len word) = bs"
proof (induction bs)
  case Nil
  then show ?case by simp
next
  case (Cons b bs)
  let ?x = "le_decode bs :: 'a word"
  have a: "ucast (ucast b OR push_bit 8 ?x) = b"
    using Cons.prems
    by (intro bit_eqI) (auto simp add: bit_simps dest: bit_imp_le_length)
  have b: "drop_bit 8 (ucast b OR push_bit 8 ?x) = ?x"
  proof (rule bit_word_eqI)
    fix n
    assume "n < LENGTH('a)"
    have "bit ?x n \<Longrightarrow> 8 + n < LENGTH('a)"
      using bit_le_decode [of bs n, where 'a = 'a] Cons.prems by simp
    then show "bit (drop_bit 8 (ucast b OR push_bit 8 ?x)) n = bit ?x n"
      by (auto simp add: bit_simps dest: bit_imp_le_length)
  qed
  from Cons.prems have "8 * length bs \<le> LENGTH('a)" by simp
  then have "le_encode (length bs) ?x = bs" by (rule Cons.IH)
  then show ?case by (simp only: length_Cons le_decode.simps le_encode.simps a b)
qed

lemma host_encode_decode:
  "8 * length bs \<le> LENGTH('a) \<Longrightarrow>
   host_encode e (length bs) (host_decode e bs :: 'a::len word) = bs"
  using le_encode_decode [of bs, where 'a = 'a] le_encode_decode [of "rev bs", where 'a = 'a]
  by (cases e) (simp_all add: host_encode_def host_decode_def)

lemma flip_decode:
  "8 * length bs \<le> LENGTH('a) \<Longrightarrow>
   host_decode e (le_encode (length bs) (host_decode e bs :: 'a::len word)) = (le_decode bs :: 'a word)"
  using le_encode_decode [of bs, where 'a = 'a] le_encode_decode [of "rev bs", where 'a = 'a]
  by (cases e) (simp_all add: host_decode_def)

lemma T_list2: "[T 0 v, T 1 v] = le_encode 2 v"
  by (simp add: T_def eval_nat_numeral)

lemma T_list4: "[T 0 v, T 1 v, T 2 v, T 3 v] = le_encode 4 v"
  by (simp add: T_def eval_nat_numeral)

lemma T_list8: "[T 0 v, T 1 v, T 2 v, T 3 v, T 4 v, T 5 v, T 6 v, T 7 v] = le_encode 8 v"
  by (simp add: T_def eval_nat_numeral)



section \<open>What the accesses of the primitives do\<close>

lemma store_flip8: "store 1 a (capn_flip8 v) s = s\<lparr>mem := (mem s)(a := v)\<rparr>"
  by (cases "host s") (simp_all add: store_def capn_flip8_def host_encode_def)

lemma load_flip8: "(load 1 a s :: u8 \<times> machine) = (mem s a, s)"
  by (cases "host s") (simp_all add: load_def host_decode_def)

lemma capn_flip16_le: "capn_flip16 e v = host_decode e (le_encode 2 v)"
  by (simp only: capn_flip16_def T_list2)

lemma capn_flip32_le: "capn_flip32 e v = host_decode e (le_encode 4 v)"
  by (simp only: capn_flip32_def T_list4)

lemma capn_flip64_le: "capn_flip64 e v = host_decode e (le_encode 8 v)"
  by (simp only: capn_flip64_def T_list8)

lemma store_flip16: "store 2 a (capn_flip16 (host s) v) s = s\<lparr>mem := store_bytes a (le_encode 2 v) (mem s)\<rparr>"
  using host_encode_decode [of "le_encode 2 v" "host s", where 'a = 16]
  by (simp add: store_def capn_flip16_le length_le_encode)

lemma store_flip32: "store 4 a (capn_flip32 (host s) v) s = s\<lparr>mem := store_bytes a (le_encode 4 v) (mem s)\<rparr>"
  using host_encode_decode [of "le_encode 4 v" "host s", where 'a = 32]
  by (simp add: store_def capn_flip32_le length_le_encode)

lemma store_flip64: "store 8 a (capn_flip64 (host s) v) s = s\<lparr>mem := store_bytes a (le_encode 8 v) (mem s)\<rparr>"
  using host_encode_decode [of "le_encode 8 v" "host s", where 'a = 64]
  by (simp add: store_def capn_flip64_le length_le_encode)

lemma flip16_load: "capn_flip16 (host s) (fst (load 2 a s)) = le_decode (load_bytes a 2 (mem s))"
  using flip_decode [of "load_bytes a 2 (mem s)" "host s", where 'a = 16]
  by (simp add: load_def capn_flip16_le length_load_bytes)

lemma flip32_load: "capn_flip32 (host s) (fst (load 4 a s)) = le_decode (load_bytes a 4 (mem s))"
  using flip_decode [of "load_bytes a 4 (mem s)" "host s", where 'a = 32]
  by (simp add: load_def capn_flip32_le length_load_bytes)

lemma flip64_load: "capn_flip64 (host s) (fst (load 8 a s)) = le_decode (load_bytes a 8 (mem s))"
  using flip_decode [of "load_bytes a 8 (mem s)" "host s", where 'a = 64]
  by (simp add: load_def capn_flip64_le length_load_bytes)

lemma snd_load: "snd (load n a s) = s"
  by (simp add: load_def)

lemma capn_write8_eq:
  "capn_write8 p off v s =
     (if sint (off + 1) \<le> uint (datasz p)
      then (0, s\<lparr>mem := (mem s)(data p + sint off := v)\<rparr>) else (- 1, s))"
  using store_flip8 [of "data p + sint off" v s] by (simp add: capn_write8_def)

lemma capn_write16_eq:
  "capn_write16 p off v s =
     (if sint (off + 2) \<le> uint (datasz p)
      then (0, s\<lparr>mem := store_bytes (data p + sint off) (le_encode 2 v) (mem s)\<rparr>) else (- 1, s))"
  by (simp add: capn_write16_def store_flip16)

lemma capn_write32_eq:
  "capn_write32 p off v s =
     (if sint (off + 4) \<le> uint (datasz p)
      then (0, s\<lparr>mem := store_bytes (data p + sint off) (le_encode 4 v) (mem s)\<rparr>) else (- 1, s))"
  by (simp add: capn_write32_def store_flip32)

lemma capn_write64_eq:
  "capn_write64 p off v s =
     (if sint (off + 8) \<le> uint (datasz p)
      then (0, s\<lparr>mem := store_bytes (data p + sint off) (le_encode 8 v) (mem s)\<rparr>) else (- 1, s))"
  by (simp add: capn_write64_def store_flip64)

lemma capn_read8_eq:
  "capn_read8 p off s =
     (if sint (off + 1) \<le> uint (datasz p) then mem s (data p + sint off) else 0, s)"
  using load_flip8 [of "data p + sint off" s] by (simp add: capn_read8_def capn_flip8_def)

lemma capn_read16_eq:
  "capn_read16 p off s =
     (if sint (off + 2) \<le> uint (datasz p)
      then le_decode (load_bytes (data p + sint off) 2 (mem s)) else 0, s)"
  using flip16_load [of s "data p + sint off"] snd_load [of 2 "data p + sint off" s, where 'a = 16]
  by (simp add: capn_read16_def split_beta)

lemma capn_read32_eq:
  "capn_read32 p off s =
     (if sint (off + 4) \<le> uint (datasz p)
      then le_decode (load_bytes (data p + sint off) 4 (mem s)) else 0, s)"
  using flip32_load [of s "data p + sint off"] snd_load [of 4 "data p + sint off" s, where 'a = 32]
  by (simp add: capn_read32_def split_beta)

lemma capn_read64_eq:
  "capn_read64 p off s =
     (if sint (off + 8) \<le> uint (datasz p)
      then le_decode (load_bytes (data p + sint off) 8 (mem s)) else 0, s)"
  using flip64_load [of s "data p + sint off"] snd_load [of 8 "data p + sint off" s, where 'a = 64]
  by (simp add: capn_read64_def split_beta)

section \<open>Little-endian stores and loads\<close>

lemma ucast_T: "ucast (T i v) = drop_bit (8 * i) (v :: 'a::len word) AND 255"
proof -
  have "ucast (T i v) = drop_bit (8 * i) v AND mask 8"
    unfolding T_def
    by (intro bit_word_eqI) (auto simp add: bit_simps dest: bit_imp_le_length)
  moreover have "(mask 8 :: 'a word) = 255" by (simp add: mask_eq_exp_minus_1)
  ultimately show ?thesis by simp
qed

lemma load_bytes_2: "load_bytes a 2 m = [m a, m (a + 1)]"
  by (simp add: eval_nat_numeral add.commute)

lemma load_bytes_4: "load_bytes a 4 m = [m a, m (a + 1), m (a + 2), m (a + 3)]"
  by (simp add: eval_nat_numeral add.commute)

lemma load_bytes_8:
  "load_bytes a 8 m = [m a, m (a + 1), m (a + 2), m (a + 3), m (a + 4), m (a + 5), m (a + 6), m (a + 7)]"
  by (simp add: eval_nat_numeral add.commute)

lemma stored_byte:
  "i < n \<Longrightarrow> store_bytes a (le_encode n v) m (a + int i) = T i v"
  using store_bytes_nth [of i "le_encode n v" a m]
  by (simp add: length_le_encode le_encode_nth)

lemma load_stored:
  "LENGTH('a) \<le> 8 * n \<Longrightarrow>
   le_decode (load_bytes a n (store_bytes a (le_encode n v) m)) = (v :: 'a::len word)"
  using load_store_bytes [of a "le_encode n v" m]
  by (simp add: length_le_encode le_decode_encode take_bit_word_eq_self)

lemma write8_stores:
  "sint (off + 1) \<le> uint (datasz p) \<Longrightarrow> i < 1 \<Longrightarrow>
   ucast (mem (snd (capn_write8 p off v s)) (data p + sint off + int i)) = drop_bit (8 * i) v AND 255"
  using ucast_T [of 0 v] by (simp add: capn_write8_eq T_def)

lemma write16_stores:
  "sint (off + 2) \<le> uint (datasz p) \<Longrightarrow> i < 2 \<Longrightarrow>
   ucast (mem (snd (capn_write16 p off v s)) (data p + sint off + int i)) = drop_bit (8 * i) v AND 255"
  by (simp add: capn_write16_eq stored_byte ucast_T)

lemma write32_stores:
  "sint (off + 4) \<le> uint (datasz p) \<Longrightarrow> i < 4 \<Longrightarrow>
   ucast (mem (snd (capn_write32 p off v s)) (data p + sint off + int i)) = drop_bit (8 * i) v AND 255"
  by (simp add: capn_write32_eq stored_byte ucast_T)

lemma write64_stores:
  "sint (off + 8) \<le> uint (datasz p) \<Longrightarrow> i < 8 \<Longrightarrow>
   ucast (mem (snd (capn_write64 p off v s)) (data p + sint off + int i)) = drop_bit (8 * i) v AND 255"
  by (simp add: capn_write64_eq stored_byte ucast_T)

lemma read8_assembles:
  "sint (off + 1) \<le> uint (datasz p) \<Longrightarrow> fst (capn_read8 p off s) = mem s (data p + sint off)"
  by (simp add: capn_read8_eq)

lemma read16_assembles:
  "sint (off + 2) \<le> uint (datasz p) \<Longrightarrow>
   fst (capn_read16 p off s) =
     ucast (mem s (data p + sint off)) OR push_bit 8 (ucast (mem s (data p + sint off + 1)))"
  by (simp add: capn_read16_eq load_bytes_2)

lemma read32_assembles:
  "sint (off + 4) \<le> uint (datasz p) \<Longrightarrow>
   fst (capn_read32 p off s) =
     ucast (mem s (data p + sint off)) OR push_bit 8 (ucast (mem s (data p + sint off + 1))) OR
     push_bit 16 (ucast (mem s (data p + sint off + 2))) OR
     push_bit 24 (ucast (mem s (data p + sint off + 3)))"
  by (simp add: capn_read32_eq load_bytes_4)

lemma read64_assembles:
  "sint (off + 8) \<le> uint (datasz p) \<Longrightarrow>
   fst (capn_read64 p off s) =
     ucast (mem s (data p + sint off)) OR push_bit 8 (ucast (mem s (data p + sint off + 1))) OR
     push_bit 16 (ucast (mem s (data p + sint off + 2))) OR
     push_bit 24 (ucast (mem s (data p + sint off + 3))) OR
     push_bit 32 (ucast (mem s (data p + sint off + 4))) OR
     push_bit 40 (ucast (mem s (data p + sint off + 5))) OR
     push_bit 48 (ucast (mem s (data p + sint off + 6))) OR
     push_bit 56 (ucast (mem s (data p + sint off + 7)))"
  by (simp add: capn_read64_eq load_bytes_8)

lemma read8_write8:
  "sint (off + 1) \<le> uint (datasz p) \<Longrightarrow>
   fst (capn_read8 p off (snd (capn_write8 p off v s))) = v"
  by (simp add: capn_read8_eq capn_write8_eq)

lemma read16_write16:
  "sint (off + 2) \<le> uint (datasz p) \<Longrightarrow>
   fst (capn_read16 p off (snd (capn_write16 p off v s))) = v"
  using load_stored [of 2 "data p + sint off" v "mem s"]
  by (simp add: capn_read16_eq capn_write16_eq)

lemma read32_write32:
  "sint (off + 4) \<le> uint (datasz p) \<Longrightarrow>
   fst (capn_read32 p off (snd (capn_write32 p off v s))) = v"
  using load_stored [of 4 "data p + sint off" v "mem s"]
  by (simp add: capn_read32_eq capn_write32_eq)

lemma read64_write64:
  "sint (off + 8) \<le> uint (datasz p) \<Longrightarrow>
   fst (capn_read64 p off (snd (capn_write64 p off v s))) = v"
  using load_stored [of 8 "data p + sint off" v "mem s"]
  by (simp add: capn_read64_eq capn_write64_eq)


section \<open>Bounds-checked reads and writes\<close>

text \<open>
  The sum of the guard is the mathematical one unless it overflows \<open>int\<close>.
\<close>

lemma sum_no_overflow:
  "0 \<le> sint n \<Longrightarrow> sint off + sint n < 2 ^ 31 \<Longrightarrow> sint (off + n :: c_int) = sint off + sint n"
proof -
  assume a: "0 \<le> sint n" "sint off + sint n < 2 ^ 31"
  have "- (2 ^ 31) \<le> sint off" using sint_ge [of off] by simp
  with a have "- (2 ^ 31) \<le> sint off + sint n" by linarith
  with a(2) have "signed_take_bit 31 (sint off + sint n) = sint off + sint n"
    by (simp add: signed_take_bit_int_eq_self)
  then show ?thesis by (simp add: sint_word_ariths)
qed

text \<open>
  Claim C2. An out-of-bounds read returns zero: for every pointer \<open>p\<close>, offset \<open>off\<close> and
  machine state, when the guard \<open>off + N/8 <= p.datasz\<close> of \<open>capn_readN\<close> fails, that is
  \<open>off + N/8 > p.datasz\<close> (N in {8,16,32,64}), the value returned is 0. The sum is the
  \<open>int\<close> sum of the code, which \<open>sum_no_overflow\<close> equates with the mathematical one
  whenever that fits an \<open>int\<close>; beyond, C leaves the sum undefined and the 32-bit sum of
  the model wraps. The read is a total function, so zero is the only outcome.
\<close>

theorem capn_read_out_of_bounds:
  "(uint (datasz p) < sint (off + 1) \<longrightarrow> fst (capn_read8 p off s) = 0) \<and>
   (uint (datasz p) < sint (off + 2) \<longrightarrow> fst (capn_read16 p off s) = 0) \<and>
   (uint (datasz p) < sint (off + 4) \<longrightarrow> fst (capn_read32 p off s) = 0) \<and>
   (uint (datasz p) < sint (off + 8) \<longrightarrow> fst (capn_read64 p off s) = 0)"
  by (simp add: capn_read8_def capn_read16_def capn_read32_def capn_read64_def)

theorem capn_read_out_of_bounds_witness:
  "uint (datasz example_ptr) < sint (8 + 1 :: c_int) \<and>
   uint (datasz example_ptr) < sint (8 + 2 :: c_int) \<and>
   uint (datasz example_ptr) < sint (8 + 4 :: c_int) \<and>
   uint (datasz example_ptr) < sint (8 + 8 :: c_int) \<and>
   fst (capn_read8 example_ptr 8 example_machine) = 0 \<and>
   fst (capn_read16 example_ptr 8 example_machine) = 0 \<and>
   fst (capn_read32 example_ptr 8 example_machine) = 0 \<and>
   fst (capn_read64 example_ptr 8 example_machine) = 0"
  using capn_read_out_of_bounds [of example_ptr 8 example_machine]
  by (simp add: example_ptr_def)

text \<open>
  Claim C3. \<open>capn_writeN(p, off, v)\<close> (N in {8,16,32,64}) returns 0 when
  \<open>off + N/8 <= p.datasz\<close>, returns -1 when \<open>off + N/8 > p.datasz\<close>, and returns nothing
  else. The sum is the \<open>int\<close> sum of the code, as in the guard.
\<close>

theorem capn_write_result:
  "(sint (off + 1) \<le> uint (datasz p) \<longrightarrow> fst (capn_write8 p off v8 s) = 0) \<and>
   (uint (datasz p) < sint (off + 1) \<longrightarrow> fst (capn_write8 p off v8 s) = - 1) \<and>
   (sint (off + 2) \<le> uint (datasz p) \<longrightarrow> fst (capn_write16 p off v16 s) = 0) \<and>
   (uint (datasz p) < sint (off + 2) \<longrightarrow> fst (capn_write16 p off v16 s) = - 1) \<and>
   (sint (off + 4) \<le> uint (datasz p) \<longrightarrow> fst (capn_write32 p off v32 s) = 0) \<and>
   (uint (datasz p) < sint (off + 4) \<longrightarrow> fst (capn_write32 p off v32 s) = - 1) \<and>
   (sint (off + 8) \<le> uint (datasz p) \<longrightarrow> fst (capn_write64 p off v64 s) = 0) \<and>
   (uint (datasz p) < sint (off + 8) \<longrightarrow> fst (capn_write64 p off v64 s) = - 1) \<and>
   fst (capn_write8 p off v8 s) \<in> {0, - 1} \<and> fst (capn_write16 p off v16 s) \<in> {0, - 1} \<and>
   fst (capn_write32 p off v32 s) \<in> {0, - 1} \<and> fst (capn_write64 p off v64 s) \<in> {0, - 1}"
  by (simp add: capn_write8_def capn_write16_def capn_write32_def capn_write64_def)

theorem capn_write_result_witness:
  "sint (0 + 1 :: c_int) \<le> uint (datasz example_ptr) \<and>
   sint (0 + 2 :: c_int) \<le> uint (datasz example_ptr) \<and>
   sint (0 + 4 :: c_int) \<le> uint (datasz example_ptr) \<and>
   sint (0 + 8 :: c_int) \<le> uint (datasz example_ptr) \<and>
   fst (capn_write8 example_ptr 0 1 example_machine) = 0 \<and>
   fst (capn_write16 example_ptr 0 1 example_machine) = 0 \<and>
   fst (capn_write32 example_ptr 0 1 example_machine) = 0 \<and>
   fst (capn_write64 example_ptr 0 1 example_machine) = 0 \<and>
   uint (datasz example_ptr) < sint (8 + 1 :: c_int) \<and>
   uint (datasz example_ptr) < sint (8 + 2 :: c_int) \<and>
   uint (datasz example_ptr) < sint (8 + 4 :: c_int) \<and>
   uint (datasz example_ptr) < sint (8 + 8 :: c_int) \<and>
   fst (capn_write8 example_ptr 8 1 example_machine) = - 1 \<and>
   fst (capn_write16 example_ptr 8 1 example_machine) = - 1 \<and>
   fst (capn_write32 example_ptr 8 1 example_machine) = - 1 \<and>
   fst (capn_write64 example_ptr 8 1 example_machine) = - 1"
  using capn_write_result [of 0 example_ptr 1 example_machine 1 1 1]
    capn_write_result [of 8 example_ptr 1 example_machine 1 1 1]
  by (simp add: example_ptr_def)

text \<open>
  Claim C4. A write that returns -1 changes nothing: the machine state after
  \<open>capn_writeN(p, off, v)\<close> (its memory, its segment headers) is the state before the call.
  The pointer \<open>p\<close> is passed by value and is not part of what the call can change.
\<close>

theorem capn_write_failure_unchanged:
  "(fst (capn_write8 p off v8 s) = - 1 \<longrightarrow> snd (capn_write8 p off v8 s) = s) \<and>
   (fst (capn_write16 p off v16 s) = - 1 \<longrightarrow> snd (capn_write16 p off v16 s) = s) \<and>
   (fst (capn_write32 p off v32 s) = - 1 \<longrightarrow> snd (capn_write32 p off v32 s) = s) \<and>
   (fst (capn_write64 p off v64 s) = - 1 \<longrightarrow> snd (capn_write64 p off v64 s) = s)"
  by (simp add: capn_write8_def capn_write16_def capn_write32_def capn_write64_def)

theorem capn_write_failure_unchanged_witness:
  "fst (capn_write8 example_ptr 8 1 example_machine) = - 1 \<and>
   fst (capn_write16 example_ptr 8 1 example_machine) = - 1 \<and>
   fst (capn_write32 example_ptr 8 1 example_machine) = - 1 \<and>
   fst (capn_write64 example_ptr 8 1 example_machine) = - 1 \<and>
   snd (capn_write8 example_ptr 8 1 example_machine) = example_machine \<and>
   snd (capn_write16 example_ptr 8 1 example_machine) = example_machine \<and>
   snd (capn_write32 example_ptr 8 1 example_machine) = example_machine \<and>
   snd (capn_write64 example_ptr 8 1 example_machine) = example_machine"
proof -
  have f: "fst (capn_write8 example_ptr 8 1 example_machine) = - 1"
    "fst (capn_write16 example_ptr 8 1 example_machine) = - 1"
    "fst (capn_write32 example_ptr 8 1 example_machine) = - 1"
    "fst (capn_write64 example_ptr 8 1 example_machine) = - 1"
    by (simp_all add: capn_write8_def capn_write16_def capn_write32_def capn_write64_def
        example_ptr_def)
  with capn_write_failure_unchanged [of example_ptr 8 1 example_machine 1 1 1]
  show ?thesis by simp
qed

text \<open>
  Claim C7. Default tolerance of the float and double reads: if \<open>off + 4 > p.datasz\<close> then
  \<open>capn_read_float(p, off, def)\<close> returns \<open>def\<close> with the same bit pattern, and if
  \<open>off + 8 > p.datasz\<close> then \<open>capn_read_double(p, off, def)\<close> does.
\<close>

theorem capn_read_float_default:
  "(uint (datasz p) < sint (off + 4) \<longrightarrow> fst (capn_read_float p off def s) = def) \<and>
   (uint (datasz p) < sint (off + 8) \<longrightarrow> fst (capn_read_double p off ddef s) = ddef)"
  by (simp add: capn_read_float_def capn_read_double_def capn_read32_def capn_read64_def)

theorem capn_read_float_default_witness:
  "uint (datasz example_ptr) < sint (8 + 4 :: c_int) \<and>
   uint (datasz example_ptr) < sint (8 + 8 :: c_int) \<and>
   fst (capn_read_float example_ptr 8 (Float 0x3F800000) example_machine) = Float 0x3F800000 \<and>
   fst (capn_read_double example_ptr 8 (Double 0x3FF0000000000000) example_machine)
     = Double 0x3FF0000000000000"
  using capn_read_float_default [of example_ptr 8 "Float 0x3F800000" example_machine
      "Double 0x3FF0000000000000"]
  by (simp add: example_ptr_def)

text \<open>
  Claim C8. Reads mutate nothing: after each of \<open>capn_read8\<close>, \<open>capn_read16\<close>,
  \<open>capn_read32\<close>, \<open>capn_read64\<close>, \<open>capn_read_float\<close> and \<open>capn_read_double\<close>, for every
  pointer, offset and default, the machine state (memory bytes and segment headers) is
  the one before the call. The pointer is passed by value.
\<close>

theorem capn_read_unchanged:
  "snd (capn_read8 p off s) = s \<and> snd (capn_read16 p off s) = s \<and>
   snd (capn_read32 p off s) = s \<and> snd (capn_read64 p off s) = s \<and>
   snd (capn_read_float p off def s) = s \<and> snd (capn_read_double p off ddef s) = s"
  by (simp add: capn_read8_eq capn_read16_eq capn_read32_eq capn_read64_eq
      capn_read_float_def capn_read_double_def)

section \<open>Byte order\<close>

text \<open>
  Claim C5. For every pointer \<open>p\<close>, offset \<open>off\<close> with \<open>off + N/8 <= p.datasz\<close> and value
  \<open>v\<close> (N in {8,16,32,64}), on a host of either byte order: after \<open>capn_writeN(p, off, v)\<close>
  the byte at \<open>p.data + off + i\<close> equals \<open>(v >> 8*i) & 0xFF\<close> for each \<open>i < N/8\<close>;
  \<open>capn_readN(p, off)\<close> is the little-endian number of the N/8 bytes at \<open>p.data + off\<close>;
  and \<open>capn_readN\<close> after \<open>capn_writeN\<close> of \<open>v\<close> at the same offset returns \<open>v\<close>.
\<close>

theorem little_endian_write_read:
  "(sint (off + 1) \<le> uint (datasz p) \<longrightarrow>
      (\<forall>i<1. ucast (mem (snd (capn_write8 p off v8 s)) (data p + sint off + int i))
          = drop_bit (8 * i) v8 AND 255) \<and>
      fst (capn_read8 p off s) = mem s (data p + sint off) \<and>
      fst (capn_read8 p off (snd (capn_write8 p off v8 s))) = v8) \<and>
   (sint (off + 2) \<le> uint (datasz p) \<longrightarrow>
      (\<forall>i<2. ucast (mem (snd (capn_write16 p off v16 s)) (data p + sint off + int i))
          = drop_bit (8 * i) v16 AND 255) \<and>
      fst (capn_read16 p off s) =
        ucast (mem s (data p + sint off)) OR push_bit 8 (ucast (mem s (data p + sint off + 1))) \<and>
      fst (capn_read16 p off (snd (capn_write16 p off v16 s))) = v16) \<and>
   (sint (off + 4) \<le> uint (datasz p) \<longrightarrow>
      (\<forall>i<4. ucast (mem (snd (capn_write32 p off v32 s)) (data p + sint off + int i))
          = drop_bit (8 * i) v32 AND 255) \<and>
      fst (capn_read32 p off s) =
        ucast (mem s (data p + sint off)) OR push_bit 8 (ucast (mem s (data p + sint off + 1))) OR
        push_bit 16 (ucast (mem s (data p + sint off + 2))) OR
        push_bit 24 (ucast (mem s (data p + sint off + 3))) \<and>
      fst (capn_read32 p off (snd (capn_write32 p off v32 s))) = v32) \<and>
   (sint (off + 8) \<le> uint (datasz p) \<longrightarrow>
      (\<forall>i<8. ucast (mem (snd (capn_write64 p off v64 s)) (data p + sint off + int i))
          = drop_bit (8 * i) v64 AND 255) \<and>
      fst (capn_read64 p off s) =
        ucast (mem s (data p + sint off)) OR push_bit 8 (ucast (mem s (data p + sint off + 1))) OR
        push_bit 16 (ucast (mem s (data p + sint off + 2))) OR
        push_bit 24 (ucast (mem s (data p + sint off + 3))) OR
        push_bit 32 (ucast (mem s (data p + sint off + 4))) OR
        push_bit 40 (ucast (mem s (data p + sint off + 5))) OR
        push_bit 48 (ucast (mem s (data p + sint off + 6))) OR
        push_bit 56 (ucast (mem s (data p + sint off + 7))) \<and>
      fst (capn_read64 p off (snd (capn_write64 p off v64 s))) = v64)"
proof (intro conjI impI allI)
  fix i :: nat
  assume "sint (off + 1) \<le> uint (datasz p)" "i < 1"
  then show "ucast (mem (snd (capn_write8 p off v8 s)) (data p + sint off + int i))
      = drop_bit (8 * i) v8 AND 255"
    by (rule write8_stores)
next
  fix i :: nat
  assume "sint (off + 2) \<le> uint (datasz p)" "i < 2"
  then show "ucast (mem (snd (capn_write16 p off v16 s)) (data p + sint off + int i))
      = drop_bit (8 * i) v16 AND 255"
    by (rule write16_stores)
next
  fix i :: nat
  assume "sint (off + 4) \<le> uint (datasz p)" "i < 4"
  then show "ucast (mem (snd (capn_write32 p off v32 s)) (data p + sint off + int i))
      = drop_bit (8 * i) v32 AND 255"
    by (rule write32_stores)
next
  fix i :: nat
  assume "sint (off + 8) \<le> uint (datasz p)" "i < 8"
  then show "ucast (mem (snd (capn_write64 p off v64 s)) (data p + sint off + int i))
      = drop_bit (8 * i) v64 AND 255"
    by (rule write64_stores)
qed (erule read8_write8 read16_write16 read32_write32 read64_write64
    read8_assembles read16_assembles read32_assembles read64_assembles)+


theorem little_endian_write_read_witness:
  "sint (0 + 1 :: c_int) \<le> uint (datasz example_ptr) \<and>
   sint (0 + 2 :: c_int) \<le> uint (datasz example_ptr) \<and>
   sint (0 + 4 :: c_int) \<le> uint (datasz example_ptr) \<and>
   sint (0 + 8 :: c_int) \<le> uint (datasz example_ptr) \<and>
   fst (capn_read8 example_ptr 0 (snd (capn_write8 example_ptr 0 0xEF example_machine))) = 0xEF \<and>
   fst (capn_read16 example_ptr 0 (snd (capn_write16 example_ptr 0 0xCDEF example_machine))) = 0xCDEF \<and>
   fst (capn_read32 example_ptr 0 (snd (capn_write32 example_ptr 0 0x89ABCDEF example_machine)))
     = 0x89ABCDEF \<and>
   fst (capn_read64 example_ptr 0
     (snd (capn_write64 example_ptr 0 0x0123456789ABCDEF example_machine))) = 0x0123456789ABCDEF \<and>
   fst (capn_read16 example_ptr 0 example_machine) = 0xAAAA \<and>
   ucast (mem (snd (capn_write64 example_ptr 0 0x0123456789ABCDEF example_machine)) 1000)
     = (0xEF :: u64) \<and>
   ucast (mem (snd (capn_write64 example_ptr 0 0x0123456789ABCDEF example_machine)) 1007)
     = (0x01 :: u64)"
proof -
  have g: "sint (0 + 1 :: c_int) \<le> uint (datasz example_ptr)"
    "sint (0 + 2 :: c_int) \<le> uint (datasz example_ptr)"
    "sint (0 + 4 :: c_int) \<le> uint (datasz example_ptr)"
    "sint (0 + 8 :: c_int) \<le> uint (datasz example_ptr)"
    by (simp_all add: example_ptr_def)
  note t = little_endian_write_read [where off = 0 and p = example_ptr and s = example_machine
      and ?v8.0 = "0xEF" and ?v16.0 = "0xCDEF" and ?v32.0 = "0x89ABCDEF"
      and ?v64.0 = "0x0123456789ABCDEF"]
  note t8 = t [THEN conjunct1, THEN mp, OF g(1)]
  note t16 = t [THEN conjunct2, THEN conjunct1, THEN mp, OF g(2)]
  note t32 = t [THEN conjunct2, THEN conjunct2, THEN conjunct1, THEN mp, OF g(3)]
  note t64 = t [THEN conjunct2, THEN conjunct2, THEN conjunct2, THEN mp, OF g(4)]
  note r = t8 [THEN conjunct2, THEN conjunct2] t16 [THEN conjunct2, THEN conjunct2]
    t32 [THEN conjunct2, THEN conjunct2] t64 [THEN conjunct2, THEN conjunct2]
  have a: "fst (capn_read16 example_ptr 0 example_machine) = 0xAAAA"
    using t16 [THEN conjunct2, THEN conjunct1] by (simp add: example_machine_def)
  note st = t64 [THEN conjunct1, rule_format]
  have b0: "ucast (mem (snd (capn_write64 example_ptr 0 0x0123456789ABCDEF example_machine)) 1000)
      = (0xEF :: u64)"
    using st [of 0] by (simp add: example_ptr_def)
  have b7: "ucast (mem (snd (capn_write64 example_ptr 0 0x0123456789ABCDEF example_machine)) 1007)
      = (0x01 :: u64)"
    using st [of 7] by (simp add: example_ptr_def)
  from g r a b0 b7 show ?thesis by (intro conjI)
qed

section \<open>Float and double accessors\<close>

text \<open>
  Claim C6. For every pointer \<open>p\<close>, offset \<open>off\<close> with \<open>off + 4 <= p.datasz\<close>, float \<open>f\<close>
  and default \<open>def\<close>, \<open>capn_read_float(p, off, def)\<close> after
  \<open>capn_write_float(p, off, f, def)\<close> returns a float with the bit pattern of \<open>f\<close>.
\<close>

theorem float_write_read:
  "sint (off + 4) \<le> uint (datasz p) \<Longrightarrow>
   fst (capn_read_float p off def (snd (capn_write_float p off f def s))) = f"
proof -
  assume g: "sint (off + 4) \<le> uint (datasz p)"
  let ?x = "float_bits f XOR float_bits def"
  have "fst (capn_read32 p off (snd (capn_write32 p off ?x s))) = ?x"
    using g by (rule read32_write32)
  then have "fst (capn_read_float p off def (snd (capn_write_float p off f def s)))
      = Float (float_bits def XOR ?x)"
    by (simp add: capn_read_float_def capn_write_float_def split_beta)
  moreover have "float_bits def XOR ?x = float_bits f"
    by (simp add: ac_simps)
  ultimately show ?thesis by simp
qed

theorem float_write_read_witness:
  "sint (4 + 4 :: c_int) \<le> uint (datasz example_ptr) \<and>
   fst (capn_read_float example_ptr 4 (Float 0x40490FDB)
     (snd (capn_write_float example_ptr 4 (Float 0x3F800000) (Float 0x40490FDB) example_machine)))
     = Float 0x3F800000"
proof -
  have g: "sint (4 + 4 :: c_int) \<le> uint (datasz example_ptr)"
    by (simp add: example_ptr_def)
  from g float_write_read [OF g, of "Float 0x40490FDB" "Float 0x3F800000" example_machine]
  show ?thesis by (intro conjI)
qed

text \<open>
  \<open>capn_write_double\<close> XORs the pattern of \<open>f\<close> with itself, so it writes the 64-bit zero
  whatever \<open>f\<close> and \<open>def\<close> are.
\<close>

lemma capn_write_double_zero:
  "capn_write_double p off f def s = capn_write64 p off 0 s"
  by (simp add: capn_write_double_def)

text \<open>
  Claim C1 asks that \<open>capn_write_double(p, off, f, def)\<close> store the XOR of the patterns of
  \<open>f\<close> and \<open>def\<close>, so that \<open>capn_read_double(p, off, def)\<close> then returns \<open>f\<close>. The code
  does not: writing \<open>f = 1.0\<close> with default \<open>2.0\<close> at offset 0 of an 8-byte data section
  succeeds and stores eight zero bytes, the 64 bits read back are not the XOR of the two
  patterns, and \<open>capn_read_double\<close> with the same default returns \<open>2.0\<close>, not \<open>1.0\<close>.
\<close>

theorem write_double_ignores_default:
  "fst (capn_write_double example_ptr 0 (Double 0x3FF0000000000000) (Double 0x4000000000000000)
      example_machine) = 0 \<and>
   load_bytes 1000 8 (mem (snd (capn_write_double example_ptr 0 (Double 0x3FF0000000000000)
      (Double 0x4000000000000000) example_machine))) = [0, 0, 0, 0, 0, 0, 0, 0] \<and>
   fst (capn_read64 example_ptr 0 (snd (capn_write_double example_ptr 0 (Double 0x3FF0000000000000)
      (Double 0x4000000000000000) example_machine)))
     \<noteq> double_bits (Double 0x3FF0000000000000) XOR double_bits (Double 0x4000000000000000) \<and>
   fst (capn_read_double example_ptr 0 (Double 0x4000000000000000)
      (snd (capn_write_double example_ptr 0 (Double 0x3FF0000000000000)
        (Double 0x4000000000000000) example_machine))) = Double 0x4000000000000000 \<and>
   fst (capn_read_double example_ptr 0 (Double 0x4000000000000000)
      (snd (capn_write_double example_ptr 0 (Double 0x3FF0000000000000)
        (Double 0x4000000000000000) example_machine))) \<noteq> Double 0x3FF0000000000000"
proof -
  let ?w = "capn_write_double example_ptr 0 (Double 0x3FF0000000000000)
      (Double 0x4000000000000000) example_machine"
  let ?w' = "capn_write64 example_ptr 0 0 example_machine"
  have g: "sint (0 + 8 :: c_int) \<le> uint (datasz example_ptr)"
    by (simp add: example_ptr_def)
  have w: "?w = ?w'"
    by (rule capn_write_double_zero)
  have r0: "fst ?w' = 0"
    using g by (simp add: capn_write64_eq)
  have "mem (snd ?w') = store_bytes (data example_ptr + sint (0 :: c_int)) (le_encode 8 (0 :: u64))
      (mem example_machine)"
    using g by (simp add: capn_write64_eq)
  moreover have "le_encode 8 (0 :: u64) = [0, 0, 0, 0, 0, 0, 0, 0]"
    by (simp add: eval_nat_numeral)
  moreover have "data example_ptr + sint (0 :: c_int) = 1000"
    by (simp add: example_ptr_def)
  ultimately have m: "mem (snd ?w') = store_bytes 1000 [0, 0, 0, 0, 0, 0, 0, 0] (mem example_machine)"
    by simp
  have b: "load_bytes 1000 8 (mem (snd ?w')) = [0, 0, 0, 0, 0, 0, 0, 0]"
    by (simp add: m load_bytes_8)
  have r: "fst (capn_read64 example_ptr 0 (snd ?w')) = 0"
    using g by (rule read64_write64)
  then have d: "fst (capn_read_double example_ptr 0 (Double 0x4000000000000000) (snd ?w'))
      = Double 0x4000000000000000"
    by (simp add: capn_read_double_def split_beta)
  show ?thesis
    unfolding w
    apply (intro conjI)
        apply (rule r0)
       apply (rule b)
      apply (simp add: r)
     apply (rule d)
    apply (simp add: d)
    done
qed

section \<open>Negative offsets\<close>

lemma stored_first_byte:
  "0 < n \<Longrightarrow> store_bytes a (le_encode n v) m a = ucast v"
  using stored_byte [of 0 n a v m] by (simp add: T_def)

text \<open>
  Claim C9. The guards of \<open>capn_readN\<close> and \<open>capn_writeN\<close> compare \<open>off + N/8\<close> with
  \<open>p.datasz\<close> only, never \<open>off\<close> with 0. For every pointer \<open>p\<close> (whatever its \<open>datasz\<close>),
  \<open>capn_read8(p, -1)\<close> passes the guard and returns the byte just before \<open>p.data\<close>, and
  \<open>capn_write8(p, -1, v)\<close> returns 0 and stores \<open>v\<close> there, outside the data section
  \<open>[p.data, p.data + p.datasz)\<close>. In general a negative \<open>off\<close> with \<open>off + N/8 <= p.datasz\<close>
  is accepted: the read returns the bytes at \<open>p.data + off\<close>, the write returns 0 and its
  first byte lands at \<open>p.data + off\<close>, below \<open>p.data\<close>.
\<close>

theorem negative_offset_accepted:
  "fst (capn_read8 p (- 1) s) = mem s (data p - 1) \<and>
   fst (capn_write8 p (- 1) v8 s) = 0 \<and>
   mem (snd (capn_write8 p (- 1) v8 s)) (data p - 1) = v8 \<and>
   data p - 1 \<notin> {data p ..< data p + uint (datasz p)} \<and>
   (sint off < 0 \<and> sint (off + 1) \<le> uint (datasz p) \<longrightarrow>
      fst (capn_read8 p off s) = mem s (data p + sint off) \<and>
      fst (capn_write8 p off v8 s) = 0 \<and>
      mem (snd (capn_write8 p off v8 s)) (data p + sint off) = v8 \<and>
      data p + sint off < data p) \<and>
   (sint off < 0 \<and> sint (off + 2) \<le> uint (datasz p) \<longrightarrow>
      fst (capn_read16 p off s) = le_decode (load_bytes (data p + sint off) 2 (mem s)) \<and>
      fst (capn_write16 p off v16 s) = 0 \<and>
      mem (snd (capn_write16 p off v16 s)) (data p + sint off) = ucast v16 \<and>
      data p + sint off < data p) \<and>
   (sint off < 0 \<and> sint (off + 4) \<le> uint (datasz p) \<longrightarrow>
      fst (capn_read32 p off s) = le_decode (load_bytes (data p + sint off) 4 (mem s)) \<and>
      fst (capn_write32 p off v32 s) = 0 \<and>
      mem (snd (capn_write32 p off v32 s)) (data p + sint off) = ucast v32 \<and>
      data p + sint off < data p) \<and>
   (sint off < 0 \<and> sint (off + 8) \<le> uint (datasz p) \<longrightarrow>
      fst (capn_read64 p off s) = le_decode (load_bytes (data p + sint off) 8 (mem s)) \<and>
      fst (capn_write64 p off v64 s) = 0 \<and>
      mem (snd (capn_write64 p off v64 s)) (data p + sint off) = ucast v64 \<and>
      data p + sint off < data p)"
proof (intro conjI)
  show "fst (capn_read8 p (- 1) s) = mem s (data p - 1)"
    by (simp add: capn_read8_eq)
  show "fst (capn_write8 p (- 1) v8 s) = 0"
    by (simp add: capn_write8_eq)
  show "mem (snd (capn_write8 p (- 1) v8 s)) (data p - 1) = v8"
    by (simp add: capn_write8_eq)
  show "data p - 1 \<notin> {data p ..< data p + uint (datasz p)}"
    by simp
  show "sint off < 0 \<and> sint (off + 1) \<le> uint (datasz p) \<longrightarrow>
      fst (capn_read8 p off s) = mem s (data p + sint off) \<and>
      fst (capn_write8 p off v8 s) = 0 \<and>
      mem (snd (capn_write8 p off v8 s)) (data p + sint off) = v8 \<and>
      data p + sint off < data p"
    by (simp add: capn_read8_eq capn_write8_eq)
  show "sint off < 0 \<and> sint (off + 2) \<le> uint (datasz p) \<longrightarrow>
      fst (capn_read16 p off s) = le_decode (load_bytes (data p + sint off) 2 (mem s)) \<and>
      fst (capn_write16 p off v16 s) = 0 \<and>
      mem (snd (capn_write16 p off v16 s)) (data p + sint off) = ucast v16 \<and>
      data p + sint off < data p"
    by (simp add: capn_read16_eq capn_write16_eq stored_first_byte)
  show "sint off < 0 \<and> sint (off + 4) \<le> uint (datasz p) \<longrightarrow>
      fst (capn_read32 p off s) = le_decode (load_bytes (data p + sint off) 4 (mem s)) \<and>
      fst (capn_write32 p off v32 s) = 0 \<and>
      mem (snd (capn_write32 p off v32 s)) (data p + sint off) = ucast v32 \<and>
      data p + sint off < data p"
    by (simp add: capn_read32_eq capn_write32_eq stored_first_byte)
  show "sint off < 0 \<and> sint (off + 8) \<le> uint (datasz p) \<longrightarrow>
      fst (capn_read64 p off s) = le_decode (load_bytes (data p + sint off) 8 (mem s)) \<and>
      fst (capn_write64 p off v64 s) = 0 \<and>
      mem (snd (capn_write64 p off v64 s)) (data p + sint off) = ucast v64 \<and>
      data p + sint off < data p"
    by (simp add: capn_read64_eq capn_write64_eq stored_first_byte)
qed

theorem negative_offset_accepted_witness:
  "sint (- 1 :: c_int) < 0 \<and>
   sint (- 1 + 1 :: c_int) \<le> uint (datasz example_ptr) \<and>
   sint (- 1 + 2 :: c_int) \<le> uint (datasz example_ptr) \<and>
   sint (- 1 + 4 :: c_int) \<le> uint (datasz example_ptr) \<and>
   sint (- 1 + 8 :: c_int) \<le> uint (datasz example_ptr) \<and>
   fst (capn_read8 example_ptr (- 1) example_machine) = 0xAA \<and>
   fst (capn_write8 example_ptr (- 1) 0x11 example_machine) = 0 \<and>
   fst (capn_write16 example_ptr (- 1) 0x2211 example_machine) = 0 \<and>
   fst (capn_write32 example_ptr (- 1) 0x44332211 example_machine) = 0 \<and>
   fst (capn_write64 example_ptr (- 1) 0x8877665544332211 example_machine) = 0 \<and>
   mem (snd (capn_write8 example_ptr (- 1) 0x11 example_machine)) 999 = 0x11 \<and>
   mem (snd (capn_write16 example_ptr (- 1) 0x2211 example_machine)) 999 = 0x11 \<and>
   mem (snd (capn_write32 example_ptr (- 1) 0x44332211 example_machine)) 999 = 0x11 \<and>
   mem (snd (capn_write64 example_ptr (- 1) 0x8877665544332211 example_machine)) 999 = 0x11 \<and>
   (999 :: int) < data example_ptr"
proof -
  have g: "sint (- 1 :: c_int) < 0 \<and> sint (- 1 + 1 :: c_int) \<le> uint (datasz example_ptr)"
    "sint (- 1 :: c_int) < 0 \<and> sint (- 1 + 2 :: c_int) \<le> uint (datasz example_ptr)"
    "sint (- 1 :: c_int) < 0 \<and> sint (- 1 + 4 :: c_int) \<le> uint (datasz example_ptr)"
    "sint (- 1 :: c_int) < 0 \<and> sint (- 1 + 8 :: c_int) \<le> uint (datasz example_ptr)"
    by (simp_all add: example_ptr_def)
  have a: "data example_ptr + sint (- 1 :: c_int) = 999" "data example_ptr - 1 = 999"
    by (simp_all add: example_ptr_def)
  note t = negative_offset_accepted [where off = "- 1" and p = example_ptr and s = example_machine
      and ?v8.0 = "0x11" and ?v16.0 = "0x2211" and ?v32.0 = "0x44332211"
      and ?v64.0 = "0x8877665544332211"]
  note t0 = t [THEN conjunct1]
  note t8 = t [THEN conjunct2, THEN conjunct2, THEN conjunct2, THEN conjunct2, THEN conjunct1,
      THEN mp, OF g(1)]
  note t16 = t [THEN conjunct2, THEN conjunct2, THEN conjunct2, THEN conjunct2, THEN conjunct2,
      THEN conjunct1, THEN mp, OF g(2)]
  note t32 = t [THEN conjunct2, THEN conjunct2, THEN conjunct2, THEN conjunct2, THEN conjunct2,
      THEN conjunct2, THEN conjunct1, THEN mp, OF g(3)]
  note t64 = t [THEN conjunct2, THEN conjunct2, THEN conjunct2, THEN conjunct2, THEN conjunct2,
      THEN conjunct2, THEN conjunct2, THEN mp, OF g(4)]
  have r: "fst (capn_read8 example_ptr (- 1) example_machine) = 0xAA"
    using t0 by (simp add: example_machine_def)
  note w = t8 [THEN conjunct2, THEN conjunct1] t16 [THEN conjunct2, THEN conjunct1]
    t32 [THEN conjunct2, THEN conjunct1] t64 [THEN conjunct2, THEN conjunct1]
  have m: "mem (snd (capn_write8 example_ptr (- 1) 0x11 example_machine)) 999 = 0x11"
    "mem (snd (capn_write16 example_ptr (- 1) 0x2211 example_machine)) 999 = 0x11"
    "mem (snd (capn_write32 example_ptr (- 1) 0x44332211 example_machine)) 999 = 0x11"
    "mem (snd (capn_write64 example_ptr (- 1) 0x8877665544332211 example_machine)) 999 = 0x11"
    using t8 [THEN conjunct2, THEN conjunct2, THEN conjunct1]
      t16 [THEN conjunct2, THEN conjunct2, THEN conjunct1]
      t32 [THEN conjunct2, THEN conjunct2, THEN conjunct1]
      t64 [THEN conjunct2, THEN conjunct2, THEN conjunct1]
    by (simp_all add: a)
  have l: "(999 :: int) < data example_ptr"
    using t8 [THEN conjunct2, THEN conjunct2, THEN conjunct2] by (simp add: a)
  from g r w m l show ?thesis by (intro conjI) simp_all
qed

section \<open>What a successful write changes\<close>

lemma write8_frame:
  "fst (capn_write8 p off v s) = 0 \<Longrightarrow>
   snd (capn_write8 p off v s) = s\<lparr>mem := mem (snd (capn_write8 p off v s))\<rparr> \<and>
   segs (snd (capn_write8 p off v s)) = segs s \<and>
   (\<forall>a. a < data p + sint off \<or> data p + sint off + 1 \<le> a \<longrightarrow>
      mem (snd (capn_write8 p off v s)) a = mem s a)"
  by (auto simp add: capn_write8_eq split: if_splits)

lemma write16_frame:
  "fst (capn_write16 p off v s) = 0 \<Longrightarrow>
   snd (capn_write16 p off v s) = s\<lparr>mem := mem (snd (capn_write16 p off v s))\<rparr> \<and>
   segs (snd (capn_write16 p off v s)) = segs s \<and>
   (\<forall>a. a < data p + sint off \<or> data p + sint off + 2 \<le> a \<longrightarrow>
      mem (snd (capn_write16 p off v s)) a = mem s a)"
  by (simp add: capn_write16_eq store_bytes_outside length_le_encode split: if_splits)

lemma write32_frame:
  "fst (capn_write32 p off v s) = 0 \<Longrightarrow>
   snd (capn_write32 p off v s) = s\<lparr>mem := mem (snd (capn_write32 p off v s))\<rparr> \<and>
   segs (snd (capn_write32 p off v s)) = segs s \<and>
   (\<forall>a. a < data p + sint off \<or> data p + sint off + 4 \<le> a \<longrightarrow>
      mem (snd (capn_write32 p off v s)) a = mem s a)"
  by (simp add: capn_write32_eq store_bytes_outside length_le_encode split: if_splits)

lemma write64_frame:
  "fst (capn_write64 p off v s) = 0 \<Longrightarrow>
   snd (capn_write64 p off v s) = s\<lparr>mem := mem (snd (capn_write64 p off v s))\<rparr> \<and>
   segs (snd (capn_write64 p off v s)) = segs s \<and>
   (\<forall>a. a < data p + sint off \<or> data p + sint off + 8 \<le> a \<longrightarrow>
      mem (snd (capn_write64 p off v s)) a = mem s a)"
  by (simp add: capn_write64_eq store_bytes_outside length_le_encode split: if_splits)


text \<open>
  Claim C10. Whenever \<open>capn_writeN(p, off, v)\<close> (N in {8,16,32,64}) returns 0, the state
  after the call differs from the state before in its memory only (the segment headers
  and everything else are the same), and every byte of memory at an address outside
  \<open>p.data + off\<close> ... \<open>p.data + off + N/8 - 1\<close> is unchanged. The pointer is passed by value.
\<close>

theorem capn_write_success_frame:
  "(fst (capn_write8 p off v8 s) = 0 \<longrightarrow>
      snd (capn_write8 p off v8 s) = s\<lparr>mem := mem (snd (capn_write8 p off v8 s))\<rparr> \<and>
      segs (snd (capn_write8 p off v8 s)) = segs s \<and>
      (\<forall>a. a < data p + sint off \<or> data p + sint off + 1 \<le> a \<longrightarrow>
         mem (snd (capn_write8 p off v8 s)) a = mem s a)) \<and>
   (fst (capn_write16 p off v16 s) = 0 \<longrightarrow>
      snd (capn_write16 p off v16 s) = s\<lparr>mem := mem (snd (capn_write16 p off v16 s))\<rparr> \<and>
      segs (snd (capn_write16 p off v16 s)) = segs s \<and>
      (\<forall>a. a < data p + sint off \<or> data p + sint off + 2 \<le> a \<longrightarrow>
         mem (snd (capn_write16 p off v16 s)) a = mem s a)) \<and>
   (fst (capn_write32 p off v32 s) = 0 \<longrightarrow>
      snd (capn_write32 p off v32 s) = s\<lparr>mem := mem (snd (capn_write32 p off v32 s))\<rparr> \<and>
      segs (snd (capn_write32 p off v32 s)) = segs s \<and>
      (\<forall>a. a < data p + sint off \<or> data p + sint off + 4 \<le> a \<longrightarrow>
         mem (snd (capn_write32 p off v32 s)) a = mem s a)) \<and>
   (fst (capn_write64 p off v64 s) = 0 \<longrightarrow>
      snd (capn_write64 p off v64 s) = s\<lparr>mem := mem (snd (capn_write64 p off v64 s))\<rparr> \<and>
      segs (snd (capn_write64 p off v64 s)) = segs s \<and>
      (\<forall>a. a < data p + sint off \<or> data p + sint off + 8 \<le> a \<longrightarrow>
         mem (snd (capn_write64 p off v64 s)) a = mem s a))"
  by (intro conjI; rule impI; erule write8_frame write16_frame write32_frame write64_frame)

theorem capn_write_success_frame_witness:
  "fst (capn_write8 example_ptr 0 1 example_machine) = 0 \<and>
   fst (capn_write16 example_ptr 0 1 example_machine) = 0 \<and>
   fst (capn_write32 example_ptr 0 1 example_machine) = 0 \<and>
   fst (capn_write64 example_ptr 0 1 example_machine) = 0 \<and>
   segs (snd (capn_write8 example_ptr 0 1 example_machine)) = segs example_machine \<and>
   segs (snd (capn_write16 example_ptr 0 1 example_machine)) = segs example_machine \<and>
   segs (snd (capn_write32 example_ptr 0 1 example_machine)) = segs example_machine \<and>
   segs (snd (capn_write64 example_ptr 0 1 example_machine)) = segs example_machine \<and>
   mem (snd (capn_write8 example_ptr 0 1 example_machine)) 1001 = 0xAA \<and>
   mem (snd (capn_write16 example_ptr 0 1 example_machine)) 1002 = 0xAA \<and>
   mem (snd (capn_write32 example_ptr 0 1 example_machine)) 1004 = 0xAA \<and>
   mem (snd (capn_write64 example_ptr 0 1 example_machine)) 1008 = 0xAA \<and>
   mem (snd (capn_write64 example_ptr 0 1 example_machine)) 999 = 0xAA"
proof -
  have g: "fst (capn_write8 example_ptr 0 1 example_machine) = 0"
    "fst (capn_write16 example_ptr 0 1 example_machine) = 0"
    "fst (capn_write32 example_ptr 0 1 example_machine) = 0"
    "fst (capn_write64 example_ptr 0 1 example_machine) = 0"
    by (simp_all add: capn_write8_def capn_write16_def capn_write32_def capn_write64_def
        example_ptr_def)
  note t = capn_write_success_frame [where off = 0 and p = example_ptr and s = example_machine
      and ?v8.0 = 1 and ?v16.0 = 1 and ?v32.0 = 1 and ?v64.0 = 1]
  note t8 = t [THEN conjunct1, THEN mp, OF g(1)]
  note t16 = t [THEN conjunct2, THEN conjunct1, THEN mp, OF g(2)]
  note t32 = t [THEN conjunct2, THEN conjunct2, THEN conjunct1, THEN mp, OF g(3)]
  note t64 = t [THEN conjunct2, THEN conjunct2, THEN conjunct2, THEN mp, OF g(4)]
  have sg: "segs (snd (capn_write8 example_ptr 0 1 example_machine)) = segs example_machine"
    "segs (snd (capn_write16 example_ptr 0 1 example_machine)) = segs example_machine"
    "segs (snd (capn_write32 example_ptr 0 1 example_machine)) = segs example_machine"
    "segs (snd (capn_write64 example_ptr 0 1 example_machine)) = segs example_machine"
    by (rule t8 [THEN conjunct2, THEN conjunct1] t16 [THEN conjunct2, THEN conjunct1]
        t32 [THEN conjunct2, THEN conjunct1] t64 [THEN conjunct2, THEN conjunct1])+
  have m: "mem (snd (capn_write8 example_ptr 0 1 example_machine)) 1001 = 0xAA"
    "mem (snd (capn_write16 example_ptr 0 1 example_machine)) 1002 = 0xAA"
    "mem (snd (capn_write32 example_ptr 0 1 example_machine)) 1004 = 0xAA"
    "mem (snd (capn_write64 example_ptr 0 1 example_machine)) 1008 = 0xAA"
    "mem (snd (capn_write64 example_ptr 0 1 example_machine)) 999 = 0xAA"
    using t8 [THEN conjunct2, THEN conjunct2, rule_format, of 1001]
      t16 [THEN conjunct2, THEN conjunct2, rule_format, of 1002]
      t32 [THEN conjunct2, THEN conjunct2, rule_format, of 1004]
      t64 [THEN conjunct2, THEN conjunct2, rule_format, of 1008]
      t64 [THEN conjunct2, THEN conjunct2, rule_format, of 999]
    by (simp_all add: example_ptr_def example_machine_def)
  from g sg m show ?thesis by (intro conjI)
qed

end
